theory Spec2Isabelle
  imports Main "HOL-Library.Sublist"
begin

section \<open>Python strings\<close>

text \<open>
  A Python \<open>str\<close> is modelled as a \<open>string\<close>. The model covers ASCII text: the character
  classes below are those of Python on the code points 0 to 127, and a character above 127
  is treated as a symbol without case that is neither a letter, a digit nor whitespace.
\<close>

definition ord :: "char \<Rightarrow> nat" where
  "ord c = of_char c"

definition chr :: "nat \<Rightarrow> char" where
  "chr n = char_of n"

definition newline :: char where
  "newline = CHR 0x0A"

definition char_isupper :: "char \<Rightarrow> bool" where
  \<comment> \<open>\<open>A\<close> to \<open>Z\<close>\<close>
  "char_isupper c = (65 \<le> ord c \<and> ord c \<le> 90)"

definition char_islower :: "char \<Rightarrow> bool" where
  \<comment> \<open>\<open>a\<close> to \<open>z\<close>\<close>
  "char_islower c = (97 \<le> ord c \<and> ord c \<le> 122)"

definition char_isalpha :: "char \<Rightarrow> bool" where
  "char_isalpha c = (char_isupper c \<or> char_islower c)"

definition char_isdigit :: "char \<Rightarrow> bool" where
  \<comment> \<open>\<open>0\<close> to \<open>9\<close>\<close>
  "char_isdigit c = (48 \<le> ord c \<and> ord c \<le> 57)"

definition char_isspace :: "char \<Rightarrow> bool" where
  \<comment> \<open>tab, line feed, vertical tab, form feed, carriage return; the four separators
      \<open>0x1C\<close> to \<open>0x1F\<close>, and the space\<close>
  "char_isspace c = ((9 \<le> ord c \<and> ord c \<le> 13) \<or> (28 \<le> ord c \<and> ord c \<le> 32))"

definition char_isword :: "char \<Rightarrow> bool" where
  \<comment> \<open>the class \<open>\w\<close> of the \<open>re\<close> module\<close>
  "char_isword c = (char_isalpha c \<or> char_isdigit c \<or> c = CHR ''_'')"

definition char_lower :: "char \<Rightarrow> char" where
  "char_lower c = (if char_isupper c then chr (ord c + 32) else c)"

definition char_upper :: "char \<Rightarrow> char" where
  "char_upper c = (if char_islower c then chr (ord c - 32) else c)"

definition str_lower :: "string \<Rightarrow> string" where
  "str_lower s = map char_lower s"

definition str_upper :: "string \<Rightarrow> string" where
  "str_upper s = map char_upper s"

definition str_isupper :: "string \<Rightarrow> bool" where
  \<comment> \<open>\<open>str.isupper\<close>: no lowercase character and at least one uppercase character\<close>
  "str_isupper s = ((\<forall>c \<in> set s. \<not> char_islower c) \<and> (\<exists>c \<in> set s. char_isupper c))"

definition str_isalpha :: "string \<Rightarrow> bool" where
  \<comment> \<open>\<open>str.isalpha\<close>: every character is a letter and there is at least one character\<close>
  "str_isalpha s = (s \<noteq> [] \<and> (\<forall>c \<in> set s. char_isalpha c))"

definition startswith :: "string \<Rightarrow> string \<Rightarrow> bool" where
  "startswith s p = (take (length p) s = p)"

definition endswith :: "string \<Rightarrow> string \<Rightarrow> bool" where
  "endswith s p = (length p \<le> length s \<and> drop (length s - length p) s = p)"

fun split_from :: "string \<Rightarrow> string \<Rightarrow> string list" where
  "split_from cur [] = (if cur = [] then [] else [cur])"
| "split_from cur (c # cs) =
     (if char_isspace c then (if cur = [] then split_from [] cs else cur # split_from [] cs)
      else split_from (cur @ [c]) cs)"

definition str_split :: "string \<Rightarrow> string list" where
  \<comment> \<open>\<open>str.split()\<close> without arguments: the maximal runs of non-whitespace characters\<close>
  "str_split s = split_from [] s"

section \<open>Regular expressions of the \<open>re\<close> module\<close>

text \<open>
  The patterns of the program are values of \<open>regex\<close>. \<open>rmatch ic r s\<close> lists, in the order
  in which the backtracking matcher of \<open>re\<close> tries them, the rests of \<open>s\<close> that remain after
  \<open>r\<close> has matched a prefix of \<open>s\<close>; \<open>ic\<close> is the flag \<open>re.IGNORECASE\<close>.
\<close>

datatype regex =
    Lit char                    \<comment> \<open>one literal character\<close>
  | Cls "char \<Rightarrow> bool"         \<comment> \<open>a character class (the program has none under \<open>re.IGNORECASE\<close>)\<close>
  | Seq regex regex             \<comment> \<open>concatenation\<close>
  | Alt regex regex             \<comment> \<open>\<open>a|b\<close>, the left alternative first\<close>
  | Rep nat nat regex           \<comment> \<open>greedy \<open>r{m,n}\<close>\<close>
  | Many1 "char \<Rightarrow> bool"       \<comment> \<open>greedy \<open>[...]+\<close> of a character class\<close>
  | LazyMany "char \<Rightarrow> bool"    \<comment> \<open>non-greedy \<open>[...]*?\<close> of a character class\<close>
  | Eos                         \<comment> \<open>\<open>$\<close>: the end of the string, or just before a final newline\<close>

definition char_matches :: "bool \<Rightarrow> char \<Rightarrow> char \<Rightarrow> bool" where
  "char_matches ic c x = (x = c \<or> (ic \<and> char_lower x = char_lower c))"

fun rep_greedy :: "(string \<Rightarrow> string list) \<Rightarrow> nat \<Rightarrow> nat \<Rightarrow> string \<Rightarrow> string list" where
  "rep_greedy f m 0 s = (if m = 0 then [s] else [])"
| "rep_greedy f m (Suc n) s =
     concat (map (rep_greedy f (m - 1) n) (f s)) @ (if m = 0 then [s] else [])"

fun many_greedy :: "(char \<Rightarrow> bool) \<Rightarrow> string \<Rightarrow> string list" where
  "many_greedy p [] = [[]]"
| "many_greedy p (c # cs) = (if p c then many_greedy p cs else []) @ [c # cs]"

fun many_lazy :: "(char \<Rightarrow> bool) \<Rightarrow> string \<Rightarrow> string list" where
  "many_lazy p [] = [[]]"
| "many_lazy p (c # cs) = (c # cs) # (if p c then many_lazy p cs else [])"

primrec rmatch :: "bool \<Rightarrow> regex \<Rightarrow> string \<Rightarrow> string list" where
  "rmatch ic (Lit c) = (\<lambda>s. case s of [] \<Rightarrow> [] | x # xs \<Rightarrow> if char_matches ic c x then [xs] else [])"
| "rmatch ic (Cls p) = (\<lambda>s. case s of [] \<Rightarrow> [] | x # xs \<Rightarrow> if p x then [xs] else [])"
| "rmatch ic (Seq a b) = (\<lambda>s. concat (map (rmatch ic b) (rmatch ic a s)))"
| "rmatch ic (Alt a b) = (\<lambda>s. rmatch ic a s @ rmatch ic b s)"
| "rmatch ic (Rep m n r) = rep_greedy (rmatch ic r) m n"
| "rmatch ic (Many1 p) = (\<lambda>s. case s of [] \<Rightarrow> [] | x # xs \<Rightarrow> if p x then many_greedy p xs else [])"
| "rmatch ic (LazyMany p) = many_lazy p"
| "rmatch ic Eos = (\<lambda>s. if s = [] \<or> s = [newline] then [s] else [])"

definition Opt :: "regex \<Rightarrow> regex" where
  \<comment> \<open>\<open>r?\<close>\<close>
  "Opt r = Rep 0 1 r"

definition Str :: "string \<Rightarrow> regex" where
  \<comment> \<open>a literal string of at least one character\<close>
  "Str s = foldr Seq (map Lit (butlast s)) (Lit (last s))"

definition re_match :: "bool \<Rightarrow> regex \<Rightarrow> string \<Rightarrow> bool" where
  \<comment> \<open>\<open>bool(pattern.match(string))\<close>: some way of matching at the start of the string succeeds\<close>
  "re_match ic r s = (rmatch ic r s \<noteq> [])"

definition re_search :: "bool \<Rightarrow> regex \<Rightarrow> string \<Rightarrow> bool" where
  \<comment> \<open>\<open>bool(re.search(pattern, string))\<close>: the pattern matches at some position\<close>
  "re_search ic r s = list_ex (\<lambda>i. rmatch ic r (drop i s) \<noteq> []) [0..<Suc (length s)]"

text \<open>
  \<open>re.sub(pattern, '', string)\<close>: scanning from the left, the first way in which the
  pattern matches at a position is deleted and the scan goes on behind it; where the pattern
  does not match (or matches nothing) the character is kept.
\<close>

function re_sub_empty :: "bool \<Rightarrow> regex \<Rightarrow> string \<Rightarrow> string" where
  "re_sub_empty ic r [] = []"
| "re_sub_empty ic r (c # cs) =
     (case rmatch ic r (c # cs) of
        [] \<Rightarrow> c # re_sub_empty ic r cs
      | rest # _ \<Rightarrow> if length rest < length (c # cs) then re_sub_empty ic r rest
                    else c # re_sub_empty ic r cs)"
  by pat_completeness auto
termination
  by (relation "measure (\<lambda>(ic, r, s). length s)") auto

section \<open>Constants and patterns\<close>

definition ROMAN_NUMERAL_PATTERN :: regex where
  \<comment> \<open>\<open>^(M{0,3})(CM|CD|D?C{0,3})(XC|XL|L?X{0,3})(IX|IV|V?I{0,3})$\<close>, matched from the start\<close>
  "ROMAN_NUMERAL_PATTERN =
     Seq (Seq (Seq (Seq
       (Rep 0 3 (Lit CHR ''M''))
       (Alt (Str ''CM'') (Alt (Str ''CD'') (Seq (Opt (Lit CHR ''D'')) (Rep 0 3 (Lit CHR ''C''))))))
       (Alt (Str ''XC'') (Alt (Str ''XL'') (Seq (Opt (Lit CHR ''L'')) (Rep 0 3 (Lit CHR ''X''))))))
       (Alt (Str ''IX'') (Alt (Str ''IV'') (Seq (Opt (Lit CHR ''V'')) (Rep 0 3 (Lit CHR ''I''))))))
       Eos"

definition SPELLED_NUMBERS :: "string list" where
  "SPELLED_NUMBERS =
     [''one'', ''two'', ''three'', ''four'', ''five'', ''six'', ''seven'', ''eight'', ''nine'', ''ten'',
      ''eleven'', ''twelve'', ''thirteen'', ''fourteen'', ''fifteen'', ''sixteen'', ''seventeen'',
      ''eighteen'', ''nineteen'', ''twenty'',
      ''thirty'', ''forty'', ''fifty'', ''sixty'', ''seventy'', ''eighty'', ''ninety'',
      ''hundred'', ''thousand'', ''million'', ''billion'']
     @ [''first'', ''second'', ''third'', ''fourth'', ''fifth'', ''sixth'', ''seventh'', ''eighth'',
        ''ninth'', ''tenth'']
     @ [''eleventh'', ''twelfth'', ''thirteenth'', ''fourteenth'', ''fifteenth'', ''sixteenth'',
        ''seventeenth'', ''eighteenth'', ''nineteenth'']
     @ [''twentieth'', ''thirtieth'', ''fortieth'', ''fiftieth'', ''sixtieth'', ''seventieth'',
        ''eightieth'', ''ninetieth'']
     @ [''hundredth'', ''thousandth'', ''millionth'', ''billionth'']
     @ [''twice'', ''thrice'', ''once'']
     @ [''single'', ''double'', ''triple'', ''quadruple'', ''quintuple'', ''sextuple'', ''septuple'',
        ''octuple'', ''nonuple'', ''decuple'']
     @ [''dozen'', ''fortnight'', ''score'', ''century'', ''millennium'']"

definition SPELLED_NUMBERS_SET :: "string set" where
  "SPELLED_NUMBERS_SET = set SPELLED_NUMBERS"

definition LOW_FREQUENCY_THRESHOLD :: nat where
  "LOW_FREQUENCY_THRESHOLD = 2"

definition HTML_CLEAN :: regex where
  \<comment> \<open>\<open><.*?>|&([a-z0-9]+|#[0-9]{1,6}|#x[0-9a-f]{1,6});\<close>\<close>
  "HTML_CLEAN =
     Alt (Seq (Lit CHR ''<'') (Seq (LazyMany (\<lambda>c. c \<noteq> newline)) (Lit CHR ''>'')))
         (Seq (Lit CHR ''&'')
           (Seq (Alt (Many1 (\<lambda>c. char_islower c \<or> char_isdigit c))
                (Alt (Seq (Lit CHR ''#'') (Rep 1 6 (Cls char_isdigit)))
                     (Seq (Str ''#x'') (Rep 1 6 (Cls (\<lambda>c. char_isdigit c \<or> c \<in> set ''abcdef''))))))
                (Lit CHR '';'')))"

definition NON_WORD_SYMBOL :: regex where
  \<comment> \<open>\<open>[^\w\s]\<close>\<close>
  "NON_WORD_SYMBOL = Cls (\<lambda>c. \<not> (char_isword c \<or> char_isspace c))"

definition DIGIT :: regex where
  \<comment> \<open>\<open>\d\<close>\<close>
  "DIGIT = Cls char_isdigit"

section \<open>The language toolkit\<close>

text \<open>
  The tokenizer, the tagger, the lemmatizer, WordNet and the word lists of NLTK are outside
  the program: they are the fields of \<open>nlp\<close>, and every result holds for all of them.
  \<open>tag_token env tokens i\<close> is the tag that the tagger gives to the \<open>i\<close>-th token of the
  sentence \<open>tokens\<close>; \<open>nltk.pos_tag\<close> pairs each token with its tag.
\<close>

record nlp =
  word_tokenize :: "string \<Rightarrow> string list"
  tag_token :: "string list \<Rightarrow> nat \<Rightarrow> string"
  lemmatize :: "string \<Rightarrow> string"
  wordnet_synsets :: "string \<Rightarrow> string list"
  words_words :: "string list"
  stopwords_english :: "string list"

definition pos_tag :: "nlp \<Rightarrow> string list \<Rightarrow> (string \<times> string) list" where
  "pos_tag env tokens = map (\<lambda>i. (tokens ! i, tag_token env tokens i)) [0..<length tokens]"

definition STOPWORDS :: "nlp \<Rightarrow> string set" where
  "STOPWORDS env = set (stopwords_english env)"

definition ENGLISH_VOCAB :: "nlp \<Rightarrow> string set" where
  "ENGLISH_VOCAB env = set (map str_lower (words_words env))"

section \<open>Utilities\<close>

datatype py_error = TypeError | AttributeError | ValueError

datatype pyobj = PyStr string | PyNone | PyNaN | PyInt int

fun strip_html_tags :: "pyobj \<Rightarrow> py_error + string" where
  "strip_html_tags (PyStr text) = Inr (re_sub_empty False HTML_CLEAN text)"
| "strip_html_tags _ = Inl TypeError"

fun strip_quotes :: "pyobj \<Rightarrow> py_error + string" where
  "strip_quotes (PyStr text) =
     Inr (if startswith text [CHR 0x22] \<and> endswith text [CHR 0x22] then butlast (tl text)
          else if startswith text [CHR 0x27] \<and> endswith text [CHR 0x27] then butlast (tl text)
          else text)"
| "strip_quotes _ = Inl AttributeError"

section \<open>Number extraction\<close>

definition is_valid_roman :: "string \<Rightarrow> bool" where
  "is_valid_roman string = re_match True ROMAN_NUMERAL_PATTERN string"

definition is_noun :: "nlp \<Rightarrow> string \<Rightarrow> bool" where
  "is_noun env word = (let pos = snd (pos_tag env [word] ! 0) in startswith pos ''NN'')"

definition is_noun_roman_bigram :: "nlp \<Rightarrow> string \<times> string \<Rightarrow> bool" where
  "is_noun_roman_bigram env bigram = (is_noun env (fst bigram) \<and> is_valid_roman (snd bigram))"

definition endswith_any :: "string \<Rightarrow> string list \<Rightarrow> bool" where
  \<comment> \<open>\<open>str.endswith\<close> with a tuple of suffixes\<close>
  "endswith_any s sufs = list_ex (endswith s) sufs"

definition roman_loop_body :: "nlp \<Rightarrow> string list \<Rightarrow> nat \<Rightarrow> string list \<Rightarrow> string list" where
  \<comment> \<open>one iteration of the loop of \<open>find_valid_roman_numerals\<close> on \<open>valid_roman_numerals\<close>\<close>
  "roman_loop_body env input_tokens idx valid_roman_numerals =
     (if \<not> str_isupper (input_tokens ! idx) then valid_roman_numerals
      else if length (input_tokens ! idx) \<le> 2 then
        (if idx = 0 then valid_roman_numerals
         else
           let first_word = input_tokens ! (idx - 1); second_word = input_tokens ! idx in
           if endswith_any first_word ['','', ''.'', '';'', '':''] then valid_roman_numerals
           else
             let first_word = re_sub_empty False NON_WORD_SYMBOL first_word in
             if is_noun_roman_bigram env (first_word, second_word)
             then valid_roman_numerals @ [input_tokens ! idx]
             else valid_roman_numerals)
      else
        (if is_valid_roman (input_tokens ! idx)
         then valid_roman_numerals @ [input_tokens ! idx]
         else valid_roman_numerals))"

definition roman_numerals_upto :: "nlp \<Rightarrow> string list \<Rightarrow> nat \<Rightarrow> string list" where
  \<comment> \<open>\<open>valid_roman_numerals\<close> after the iterations for the indices below \<open>k\<close>\<close>
  "roman_numerals_upto env input_tokens k = fold (roman_loop_body env input_tokens) [0..<k] []"

definition find_valid_roman_numerals :: "nlp \<Rightarrow> string \<Rightarrow> string list" where
  "find_valid_roman_numerals env input_text =
     (let input_tokens = str_split input_text
      in roman_numerals_upto env input_tokens (length input_tokens))"

section \<open>Non-English words\<close>

definition excluded_pos_tags :: "string list" where
  "excluded_pos_tags = [''NNP'', ''NNPS'', ''IN'', ''DT'', ''WP'', ''WP$'', ''WRB'', ''PRP'', ''PRP$'',
                        ''CC'', ''TO'', ''MD'', ''EX'', ''UH'']"

definition non_english_loop_body ::
  "nlp \<Rightarrow> string \<Rightarrow> (string \<Rightarrow> string) \<Rightarrow> string \<times> string \<Rightarrow> string list \<Rightarrow> string list" where
  \<comment> \<open>one iteration of the loop of \<open>find_non_english_word\<close> on \<open>non_english_words\<close>\<close>
  "non_english_loop_body env method lemmatizer wt non_english_words =
     (let word = fst wt;
          lemma_word = lemmatizer (str_lower word)
      in
        if method = ''wordnet'' \<and> wordnet_synsets env lemma_word = []
          then non_english_words @ [word]
        else if method = ''en_dict'' \<and>
                \<not> (lemma_word \<in> ENGLISH_VOCAB env \<or> str_lower lemma_word \<in> ENGLISH_VOCAB env \<or>
                   str_upper lemma_word \<in> ENGLISH_VOCAB env \<or> str_lower word \<in> ENGLISH_VOCAB env)
          then non_english_words @ [word]
        else if method = ''combined'' then
          (let in_wordnet = (wordnet_synsets env lemma_word \<noteq> []);
               in_en_dict = (lemma_word \<in> ENGLISH_VOCAB env \<or> str_lower lemma_word \<in> ENGLISH_VOCAB env \<or>
                   str_upper lemma_word \<in> ENGLISH_VOCAB env \<or> str_lower word \<in> ENGLISH_VOCAB env)
           in if \<not> (in_wordnet \<or> in_en_dict) then non_english_words @ [word]
              else non_english_words)
        else non_english_words)"

definition find_non_english_word ::
  "nlp \<Rightarrow> string \<Rightarrow> string \<Rightarrow> string set \<Rightarrow> (string \<Rightarrow> string) \<Rightarrow> string list" where
  "find_non_english_word env input_text method stopword_list lemmatizer =
     (let input_tokens = word_tokenize env input_text;
          tagged_tokens = pos_tag env input_tokens;
          filtered_tokens =
            filter (\<lambda>(word, tag). str_isalpha word \<and> str_lower word \<notin> stopword_list \<and>
                                  tag \<notin> set excluded_pos_tags) tagged_tokens
      in fold (non_english_loop_body env method lemmatizer) filtered_tokens [])"

section \<open>Unusual proper nouns\<close>

definition find_proper_nouns :: "nlp \<Rightarrow> string \<Rightarrow> string list" where
  "find_proper_nouns env text =
     (let tokens = word_tokenize env text;
          tagged = pos_tag env tokens
      in map fst (filter (\<lambda>(word, tag). tag \<in> {''NNP'', ''NNPS''}) tagged))"

fun str_join :: "string \<Rightarrow> string list \<Rightarrow> string" where
  "str_join sep [] = []"
| "str_join sep [x] = x"
| "str_join sep (x # y # ys) = x @ sep @ str_join sep (y # ys)"

fun count_word :: "string \<Rightarrow> (string \<times> nat) list \<Rightarrow> (string \<times> nat) list" where
  "count_word w [] = [(w, 1)]"
| "count_word w ((v, n) # rest) = (if v = w then (v, Suc n) # rest else (v, n) # count_word w rest)"

definition FreqDist :: "string list \<Rightarrow> (string \<times> nat) list" where
  \<comment> \<open>the items of \<open>nltk.FreqDist(words)\<close>: each distinct word, in the order of its first
      occurrence, with the number of its occurrences\<close>
  "FreqDist words = fold count_word words []"

definition corpus_words :: "nlp \<Rightarrow> string list \<Rightarrow> string list" where
  \<comment> \<open>\<open>words\<close> in \<open>generate_word_frequency\<close>\<close>
  "corpus_words env col =
     (let all_text = str_join '' '' col;
          all_text = str_lower all_text;
          all_text = re_sub_empty False HTML_CLEAN all_text
      in word_tokenize env all_text)"

definition generate_word_frequency ::
  "nlp \<Rightarrow> (string \<rightharpoonup> string list) \<Rightarrow> string \<Rightarrow> py_error + (string \<times> nat) list" where
  \<comment> \<open>the rows (word, frequency) of the result, by falling frequency; pandas fixes no
      order among rows of equal frequency\<close>
  "generate_word_frequency env df column =
     (case df column of
        None \<Rightarrow> Inl ValueError
      | Some col \<Rightarrow>
          let freq_dist = FreqDist (corpus_words env col)
          in Inr (rev (sort_key snd freq_dist)))"


section \<open>The curation of a data set\<close>

text \<open>
  The data frame is modelled by its column \<open>question\<close>, one cell for each record; a record
  without text has \<open>PyNone\<close>, \<open>PyNaN\<close> or a number there. \<open>Series.apply\<close> calls the function
  on every cell in turn, and an exception raised by a call ends the whole run.
\<close>

fun apply_column :: "('a \<Rightarrow> py_error + 'b) \<Rightarrow> 'a list \<Rightarrow> py_error + 'b list" where
  "apply_column f [] = Inr []"
| "apply_column f (x # xs) =
     (case f x of
        Inl e \<Rightarrow> Inl e
      | Inr y \<Rightarrow> (case apply_column f xs of Inl e \<Rightarrow> Inl e | Inr ys \<Rightarrow> Inr (y # ys)))"

definition preprocessing :: "pyobj list \<Rightarrow> py_error + string list" where
  "preprocessing question =
     (case apply_column strip_html_tags question of
        Inl e \<Rightarrow> Inl e
      | Inr stripped \<Rightarrow> apply_column strip_quotes (map PyStr stripped))"

definition has_spelled_number :: "nlp \<Rightarrow> string \<Rightarrow> bool" where
  "has_spelled_number env x = (set (word_tokenize env (str_lower x)) \<inter> SPELLED_NUMBERS_SET \<noteq> {})"

definition has_numerical_value :: "nlp \<Rightarrow> string \<Rightarrow> bool" where
  "has_numerical_value env x = list_ex (\<lambda>token. re_search False DIGIT token) (word_tokenize env x)"

definition unusual_words :: "(string \<times> nat) list \<Rightarrow> string set" where
  "unusual_words frequency_df =
     set (map fst (filter (\<lambda>(word, frequency). frequency \<le> LOW_FREQUENCY_THRESHOLD) frequency_df))"

definition has_unusual_proper_noun :: "string set \<Rightarrow> string list \<Rightarrow> bool" where
  "has_unusual_proper_noun unusual x = (set (map str_lower x) \<inter> unusual \<noteq> {})"

record curated =
  question :: "string list"
  col_has_spelled_number :: "bool list"
  col_roman_text :: "string list list"
  col_has_roman_numeral :: "bool list"
  col_has_numerical_value :: "bool list"
  col_has_number :: "bool list"
  col_non_english_words :: "string list list"
  col_has_non_english_word :: "bool list"
  col_proper_nouns :: "string list list"
  col_has_unusual_proper_noun :: "bool list"

definition curate_questions :: "nlp \<Rightarrow> string list \<Rightarrow> py_error + curated" where
  \<comment> \<open>the cells of the notebook behind the preprocessing, on the cleaned column\<close>
  "curate_questions env qs =
     (let spelled = map (has_spelled_number env) qs;
          roman_text = map (find_valid_roman_numerals env) qs;
          roman = map (\<lambda>x. length x > 0) roman_text;
          numerical = map (has_numerical_value env) qs;
          number = map2 (\<or>) (map2 (\<or>) spelled numerical) roman;
          non_english =
            map (\<lambda>x. find_non_english_word env x ''combined'' (STOPWORDS env) (lemmatize env)) qs;
          has_non_english = map (\<lambda>x. length x > 0) non_english;
          proper = map (find_proper_nouns env) qs
      in case generate_word_frequency env [''question'' \<mapsto> qs] ''question'' of
           Inl e \<Rightarrow> Inl e
         | Inr frequency_df \<Rightarrow>
             Inr \<lparr> question = qs,
                   col_has_spelled_number = spelled,
                   col_roman_text = roman_text,
                   col_has_roman_numeral = roman,
                   col_has_numerical_value = numerical,
                   col_has_number = number,
                   col_non_english_words = non_english,
                   col_has_non_english_word = has_non_english,
                   col_proper_nouns = proper,
                   col_has_unusual_proper_noun =
                     map (has_unusual_proper_noun (unusual_words frequency_df)) proper \<rparr>)"

definition curate :: "nlp \<Rightarrow> pyobj list \<Rightarrow> py_error + curated" where
  "curate env raw =
     (case preprocessing raw of
        Inl e \<Rightarrow> Inl e
      | Inr qs \<Rightarrow> curate_questions env qs)"

section \<open>A small toolkit for evaluation\<close>

text \<open>
  An instance of \<open>nlp\<close> on which the functions can be evaluated: it splits at whitespace,
  tags a handful of names as proper nouns and every other token as a noun, lemmatizes
  nothing, and knows a few English words.
\<close>

definition simple_nlp :: nlp where
  "simple_nlp =
     \<lparr> word_tokenize = str_split,
       tag_token = (\<lambda>tokens i.
          if tokens ! i \<in> set [''Amelia'', ''Earhart'', ''Lockheed'', ''Vega'', ''German'', ''England'']
          then ''NNP'' else ''NN''),
       lemmatize = (\<lambda>w. w),
       wordnet_synsets = (\<lambda>w. if w \<in> set [''word'', ''translation''] then [w @ ''.n.01''] else []),
       words_words = [''word'', ''direct'', ''Translation''],
       stopwords_english = [''the'', ''has'', ''no'', ''a'', ''in''] \<rparr>"

section \<open>Notions used in the statements\<close>

















definition is_text :: "pyobj \<Rightarrow> bool" where
  "is_text x = (case x of PyStr s \<Rightarrow> True | _ \<Rightarrow> False)"

section \<open>Matching and the language of a pattern\<close>





















section \<open>The loop of \<open>find_valid_roman_numerals\<close>\<close>












section \<open>Characters\<close>








section \<open>Tokens and Roman numerals\<close>











section \<open>Non-English words, frequencies and the run\<close>




lemma non_english_other_body:
  "method \<noteq> ''wordnet'' \<Longrightarrow> method \<noteq> ''en_dict'' \<Longrightarrow> method \<noteq> ''combined'' \<Longrightarrow>
   non_english_loop_body env method lem wt acc = acc"
  by (simp add: non_english_loop_body_def Let_def)

lemma fold_ident: "(\<And>x acc. f x acc = acc) \<Longrightarrow> fold f xs acc = acc"
  by (induction xs arbitrary: acc) simp_all

lemma find_non_english_word_other:
  "method \<noteq> ''wordnet'' \<Longrightarrow> method \<noteq> ''en_dict'' \<Longrightarrow> method \<noteq> ''combined'' \<Longrightarrow>
   find_non_english_word env text method stop lem = []"
  unfolding find_non_english_word_def Let_def
  by (rule fold_ident) (simp add: non_english_other_body)

lemma count_word_map_of:
  "map_of (count_word w al) = (map_of al)(w \<mapsto> (case map_of al w of None \<Rightarrow> 1 | Some n \<Rightarrow> Suc n))"
  by (induction al) (auto simp: fun_eq_iff)

lemma count_word_keys: "fst ` set (count_word w al) = insert w (fst ` set al)"
  by (induction w al rule: count_word.induct) auto

lemma count_word_distinct: "distinct (map fst al) \<Longrightarrow> distinct (map fst (count_word w al))"
proof (induction al)
  case Nil
  show ?case by simp
next
  case (Cons a al)
  obtain v n where a: "a = (v, n)" by (cases a)
  show ?case using Cons count_word_keys[of w al] by (auto simp: a)
qed

lemma fold_count_word_distinct:
  "distinct (map fst al) \<Longrightarrow> distinct (map fst (fold count_word ws al))"
  by (induction ws arbitrary: al) (simp_all add: count_word_distinct)

lemma fold_count_word_map_of:
  "map_of (fold count_word ws al) v =
     (if v \<in> set ws then Some ((case map_of al v of None \<Rightarrow> 0 | Some n \<Rightarrow> n) + count_list ws v)
      else map_of al v)"
proof (induction ws arbitrary: al)
  case Nil
  show ?case by simp
next
  case (Cons w ws)
  show ?case
    unfolding fold_simps Cons.IH count_word_map_of
    by (auto split: option.splits)
qed

lemma FreqDist_set: "set (FreqDist ws) = {(v, count_list ws v) | v. v \<in> set ws}"
proof -
  have d: "distinct (map fst (FreqDist ws))"
    unfolding FreqDist_def by (rule fold_count_word_distinct) simp
  have m: "map_of (FreqDist ws) v = (if v \<in> set ws then Some (count_list ws v) else None)" for v
    unfolding FreqDist_def fold_count_word_map_of by simp
  show ?thesis
  proof (rule set_eqI)
    fix p :: "string \<times> nat"
    obtain v n where p: "p = (v, n)" by (cases p)
    have "p \<in> set (FreqDist ws) \<longleftrightarrow> map_of (FreqDist ws) v = Some n"
      unfolding p using d by simp
    also have "\<dots> \<longleftrightarrow> v \<in> set ws \<and> n = count_list ws v" unfolding m by auto
    finally show "p \<in> set (FreqDist ws) \<longleftrightarrow> p \<in> {(v, count_list ws v) | v. v \<in> set ws}"
      unfolding p by auto
  qed
qed

lemma unusual_words_frequency:
  assumes "df column = Some col"
  shows "\<exists>frequency_df. generate_word_frequency env df column = Inr frequency_df \<and>
     unusual_words frequency_df =
       {w \<in> set (corpus_words env col). count_list (corpus_words env col) w \<le> LOW_FREQUENCY_THRESHOLD}"
proof -
  let ?ws = "corpus_words env col"
  have u: "unusual_words fd = {w. \<exists>n. (w, n) \<in> set fd \<and> n \<le> LOW_FREQUENCY_THRESHOLD}" for fd
    unfolding unusual_words_def by force
  have "generate_word_frequency env df column = Inr (rev (sort_key snd (FreqDist ?ws)))"
    using assms by (simp add: generate_word_frequency_def Let_def)
  moreover have "unusual_words (rev (sort_key snd (FreqDist ?ws))) =
      {w \<in> set ?ws. count_list ?ws w \<le> LOW_FREQUENCY_THRESHOLD}"
    unfolding u by (auto simp: FreqDist_set)
  ultimately show ?thesis by blast
qed



lemma apply_column_strip_html_ok:
  "\<forall>x \<in> set raw. is_text x \<Longrightarrow>
   \<exists>col. apply_column strip_html_tags raw = Inr col \<and> length col = length raw"
proof (induction raw)
  case Nil
  then show ?case by simp
next
  case (Cons x raw)
  then obtain s where "x = PyStr s" by (cases x) (auto simp: is_text_def)
  then show ?case using Cons by auto
qed

lemma apply_column_strip_quotes_ok:
  "\<exists>col. apply_column strip_quotes (map PyStr xs) = Inr col \<and> length col = length xs"
  by (induction xs) auto


lemma preprocessing_ok:
  assumes "\<forall>x \<in> set raw. is_text x"
  shows "\<exists>qs. preprocessing raw = Inr qs \<and> length qs = length raw"
proof -
  from apply_column_strip_html_ok[OF assms] obtain col where
    c: "apply_column strip_html_tags raw = Inr col" "length col = length raw" by blast
  from apply_column_strip_quotes_ok[of col] obtain qs where
    "apply_column strip_quotes (map PyStr col) = Inr qs" "length qs = length col" by blast
  then show ?thesis using c by (simp add: preprocessing_def)
qed

lemma curate_questions_ok:
  "\<exists>out. curate_questions env qs = Inr out \<and> question out = qs"
  by (simp add: curate_questions_def Let_def generate_word_frequency_def)

lemma curate_questions_columns:
  assumes "curate_questions env qs = Inr out"
  shows "question out = qs"
    and "col_has_spelled_number out = map (has_spelled_number env) qs"
    and "col_roman_text out = map (find_valid_roman_numerals env) qs"
    and "col_has_roman_numeral out = map (\<lambda>x. find_valid_roman_numerals env x \<noteq> []) qs"
    and "col_has_numerical_value out = map (has_numerical_value env) qs"
    and "col_has_number out = map (\<lambda>x. has_spelled_number env x \<or> has_numerical_value env x \<or>
            find_valid_roman_numerals env x \<noteq> []) qs"
    and "col_proper_nouns out = map (find_proper_nouns env) qs"
    and "col_has_unusual_proper_noun out =
          map (\<lambda>x. has_unusual_proper_noun
             {w \<in> set (corpus_words env qs). count_list (corpus_words env qs) w \<le> LOW_FREQUENCY_THRESHOLD}
             (find_proper_nouns env x)) qs"
proof -
  obtain f where f: "generate_word_frequency env [''question'' \<mapsto> qs] ''question'' = Inr f"
    "unusual_words f = {w \<in> set (corpus_words env qs). count_list (corpus_words env qs) w \<le> LOW_FREQUENCY_THRESHOLD}"
    using unusual_words_frequency[of "[''question'' \<mapsto> qs]" "''question''" qs env] by auto
  have out: "out = \<lparr> question = qs,
                   col_has_spelled_number = map (has_spelled_number env) qs,
                   col_roman_text = map (find_valid_roman_numerals env) qs,
                   col_has_roman_numeral = map (\<lambda>x. length x > 0) (map (find_valid_roman_numerals env) qs),
                   col_has_numerical_value = map (has_numerical_value env) qs,
                   col_has_number = map2 (\<or>) (map2 (\<or>) (map (has_spelled_number env) qs) (map (has_numerical_value env) qs)) (map (\<lambda>x. length x > 0) (map (find_valid_roman_numerals env) qs)),
                   col_non_english_words = map (\<lambda>x. find_non_english_word env x ''combined'' (STOPWORDS env) (lemmatize env)) qs,
                   col_has_non_english_word = map (\<lambda>x. length x > 0) (map (\<lambda>x. find_non_english_word env x ''combined'' (STOPWORDS env) (lemmatize env)) qs),
                   col_proper_nouns = map (find_proper_nouns env) qs,
                   col_has_unusual_proper_noun =
                     map (has_unusual_proper_noun (unusual_words f)) (map (find_proper_nouns env) qs) \<rparr>"
    using assms unfolding curate_questions_def Let_def f(1) by simp
  show "question out = qs" by (simp add: out)
  show "col_has_spelled_number out = map (has_spelled_number env) qs" by (simp add: out)
  show "col_roman_text out = map (find_valid_roman_numerals env) qs" by (simp add: out)
  show "col_has_roman_numeral out = map (\<lambda>x. find_valid_roman_numerals env x \<noteq> []) qs" by (simp add: out)
  show "col_has_numerical_value out = map (has_numerical_value env) qs" by (simp add: out)
  show "col_has_number out = map (\<lambda>x. has_spelled_number env x \<or> has_numerical_value env x \<or>
            find_valid_roman_numerals env x \<noteq> []) qs"
    by (simp add: out zip_map_map zip_same_conv_map)
  show "col_proper_nouns out = map (find_proper_nouns env) qs" by (simp add: out)
  show "col_has_unusual_proper_noun out =
          map (\<lambda>x. has_unusual_proper_noun
             {w \<in> set (corpus_words env qs). count_list (corpus_words env qs) w \<le> LOW_FREQUENCY_THRESHOLD}
             (find_proper_nouns env x)) qs"
    by (simp add: out f(2))
qed

section \<open>The properties of the specification\<close>




text \<open>
  C2. For every record of a run, the flag \<open>has_number\<close> is the disjunction of the flags
  \<open>has_spelled_number\<close>, \<open>has_numerical_value\<close> and \<open>has_roman_numeral\<close> of that record.
\<close>

theorem has_number_disjunction:
  assumes "curate env raw = Inr out" and "i < length (question out)"
  shows "length (col_has_number out) = length (question out) \<and>
         col_has_number out ! i =
           (col_has_spelled_number out ! i \<or> col_has_numerical_value out ! i \<or>
            col_has_roman_numeral out ! i)"
proof -
  from assms(1) obtain qs where "curate_questions env qs = Inr out"
    by (auto simp: curate_def split: sum.splits)
  from curate_questions_columns[OF this] assms(2) show ?thesis by simp
qed

text \<open>The theorem on a run of three records; the second has a number only as digits.\<close>

theorem has_number_disjunction_witness:
  "\<exists>out. curate simple_nlp [PyStr ''Henry VIII ruled England'',
            PyStr ''Amelia Earhart flew a Lockheed Vega in 1928'', PyStr ''the end''] = Inr out \<and>
     1 < length (question out) \<and>
     col_has_number out ! 1 =
       (col_has_spelled_number out ! 1 \<or> col_has_numerical_value out ! 1 \<or>
        col_has_roman_numeral out ! 1)"
proof -
  let ?raw = "[PyStr ''Henry VIII ruled England'',
            PyStr ''Amelia Earhart flew a Lockheed Vega in 1928'', PyStr ''the end'']"
  have "\<forall>x \<in> set ?raw. is_text x" by (simp add: is_text_def)
  from preprocessing_ok[OF this] obtain qs where qs: "preprocessing ?raw = Inr qs" "length qs = 3"
    by auto
  from curate_questions_ok[of simple_nlp qs] obtain out where
    out: "curate_questions simple_nlp qs = Inr out" "question out = qs" by blast
  have c: "curate simple_nlp ?raw = Inr out" by (simp add: curate_def qs(1) out(1))
  have l: "1 < length (question out)" by (simp add: out(2) qs(2))
  from has_number_disjunction[OF c l] c l show ?thesis by blast
qed













text \<open>
  C8. For every record of a run, \<open>has_spelled_number\<close> is true exactly when a token of the
  lowercased text is in \<open>SPELLED_NUMBERS_SET\<close>. Texts that differ only in case get the same
  flag, and the test is for the word itself: \<open>third\<close> is in the lexicon, its inflected form
  \<open>thirds\<close> is not, and a text whose only token is \<open>thirds\<close> does not get the flag.
\<close>

theorem spelled_number_flag:
  "(curate env raw = Inr out \<and> i < length (question out) \<longrightarrow>
      (col_has_spelled_number out ! i \<longleftrightarrow>
         set (word_tokenize env (str_lower (question out ! i))) \<inter> SPELLED_NUMBERS_SET \<noteq> {})) \<and>
   (str_lower x = str_lower y \<longrightarrow> has_spelled_number env x = has_spelled_number env y) \<and>
   ''third'' \<in> SPELLED_NUMBERS_SET \<and> ''thirds'' \<notin> SPELLED_NUMBERS_SET \<and>
   (set (word_tokenize env (str_lower x)) \<subseteq> {''thirds''} \<longrightarrow> \<not> has_spelled_number env x)"
proof (intro conjI impI)
  assume a: "curate env raw = Inr out \<and> i < length (question out)"
  then obtain qs where "curate_questions env qs = Inr out"
    by (auto simp: curate_def split: sum.splits)
  from curate_questions_columns[OF this] a
  show "col_has_spelled_number out ! i \<longleftrightarrow>
         set (word_tokenize env (str_lower (question out ! i))) \<inter> SPELLED_NUMBERS_SET \<noteq> {}"
    by (simp add: has_spelled_number_def)
next
  assume "str_lower x = str_lower y"
  then show "has_spelled_number env x = has_spelled_number env y"
    by (simp add: has_spelled_number_def)
next
  show "''third'' \<in> SPELLED_NUMBERS_SET" by code_simp
next
  show t: "''thirds'' \<notin> SPELLED_NUMBERS_SET" by code_simp
  assume "set (word_tokenize env (str_lower x)) \<subseteq> {''thirds''}"
  with t show "\<not> has_spelled_number env x"
    by (auto simp: has_spelled_number_def)
qed

text \<open>
  The theorem on a run of two records that differ only in case, and on the text \<open>Thirds\<close>.
\<close>

theorem spelled_number_flag_witness:
  "\<exists>out. curate simple_nlp [PyStr ''The Third man'', PyStr ''the third MAN''] = Inr out \<and>
     col_has_spelled_number out ! 0 \<and>
     has_spelled_number simple_nlp ''The Third man'' = has_spelled_number simple_nlp ''the third MAN'' \<and>
     \<not> has_spelled_number simple_nlp ''Thirds''"
proof -
  let ?raw = "[PyStr ''The Third man'', PyStr ''the third MAN'']"
  let ?qs = "[''The Third man'', ''the third MAN'']"
  have p: "preprocessing ?raw = Inr ?qs" by code_simp
  from curate_questions_ok[of simple_nlp ?qs] obtain out where
    out: "curate_questions simple_nlp ?qs = Inr out" "question out = ?qs" by blast
  have c: "curate simple_nlp ?raw = Inr out" by (simp add: curate_def p out(1))
  have l: "0 < length (question out)" by (simp add: out(2))
  have s: "set (word_tokenize simple_nlp (str_lower (?qs ! 0))) \<inter> SPELLED_NUMBERS_SET \<noteq> {}"
    by code_simp
  have e: "str_lower ''The Third man'' = str_lower ''the third MAN''" by code_simp
  have t: "set (word_tokenize simple_nlp (str_lower ''Thirds'')) \<subseteq> {''thirds''}" by code_simp
  have "col_has_spelled_number out ! 0"
    using spelled_number_flag[of simple_nlp ?raw out 0] c l s unfolding out(2) by blast
  moreover have "has_spelled_number simple_nlp ''The Third man'' =
      has_spelled_number simple_nlp ''the third MAN''"
    using spelled_number_flag[of simple_nlp ?raw out 0 "''The Third man''" "''the third MAN''"] e
    by blast
  moreover have "\<not> has_spelled_number simple_nlp ''Thirds''"
    using spelled_number_flag[of simple_nlp ?raw out 0 "''Thirds''" "''Thirds''"] t by blast
  ultimately show ?thesis using c by blast
qed



text \<open>
  C10. For a method other than \<open>wordnet\<close>, \<open>en_dict\<close> and \<open>combined\<close>,
  \<open>find_non_english_word\<close> returns the empty list for every text: it neither raises an
  error nor falls back to one of the three methods.
\<close>

theorem unknown_method_flags_nothing:
  assumes "method \<notin> {''wordnet'', ''en_dict'', ''combined''}"
  shows "find_non_english_word env text method stop lemmatizer = []"
  using assms by (simp add: find_non_english_word_other)

text \<open>
  The theorem for the method \<open>either\<close>, on a sentence in which \<open>combined\<close> flags a word.
\<close>

theorem unknown_method_flags_nothing_witness:
  "''either'' \<notin> {''wordnet'', ''en_dict'', ''combined''} \<and>
   find_non_english_word simple_nlp ''The German word Weltschmerz has no direct translation''
       ''either'' (STOPWORDS simple_nlp) (lemmatize simple_nlp) = [] \<and>
   find_non_english_word simple_nlp ''The German word Weltschmerz has no direct translation''
       ''combined'' (STOPWORDS simple_nlp) (lemmatize simple_nlp) \<noteq> []"
proof -
  have m: "''either'' \<notin> {''wordnet'', ''en_dict'', ''combined''}" by simp
  have "find_non_english_word simple_nlp ''The German word Weltschmerz has no direct translation''
       ''combined'' (STOPWORDS simple_nlp) (lemmatize simple_nlp) \<noteq> []"
    by code_simp
  with m unknown_method_flags_nothing[OF m, of simple_nlp
      "''The German word Weltschmerz has no direct translation''" "STOPWORDS simple_nlp"
      "lemmatize simple_nlp"]
  show ?thesis by blast
qed

end
